theory Spec2Isabelle
  imports Complex_Main
begin

section \<open>Errors and arrays\<close>

text \<open>
  The exceptions of \<^verbatim>\<open>horton/cext.pyx\<close>, with the messages of the source. A buffer
  argument declared \<^verbatim>\<open>np.ndarray[double, ndim=2]\<close> is checked by Cython before the
  body runs; a wrong number of dimensions is a \<^verbatim>\<open>ValueError\<close> of the binding layer.
  \<^verbatim>\<open>LinAlgError\<close> is what \<^verbatim>\<open>np.linalg.svd\<close> raises when it does not converge.
  Doubles are modelled as reals: rounding, infinities and NaN are outside the model.
\<close>

datatype error = TypeError string | ValueError string | LinAlgError

record ndarray =
  shape :: "nat list"
  data :: "real list"
  writeable :: bool

definition ndim :: "ndarray \<Rightarrow> nat" where
  "ndim a = length (shape a)"

definition size_nd :: "ndarray \<Rightarrow> nat" where
  "size_nd a = prod_list (shape a)"

definition np_zeros :: "nat list \<Rightarrow> ndarray" where
  "np_zeros sh = \<lparr>shape = sh, data = replicate (prod_list sh) 0, writeable = True\<rparr>"

text \<open>Element access of a C-contiguous two-dimensional array: \<^verbatim>\<open>a[i, j]\<close>.\<close>

definition getitem2 :: "ndarray \<Rightarrow> nat \<Rightarrow> nat \<Rightarrow> real" where
  "getitem2 a i j = data a ! (i * (shape a ! 1) + j)"

definition setitem2 :: "ndarray \<Rightarrow> nat \<Rightarrow> nat \<Rightarrow> real \<Rightarrow> ndarray" where
  "setitem2 a i j v = a\<lparr>data := (data a)[i * (shape a ! 1) + j := v]\<rparr>"

text \<open>The rows of a two-dimensional array.\<close>

definition rows_of :: "ndarray \<Rightarrow> real list list" where
  "rows_of a = map (\<lambda>i. take (shape a ! 1) (drop (i * (shape a ! 1)) (data a))) [0..<shape a ! 0]"

section \<open>Matrices of numpy, as lists of rows\<close>

definition identity :: "nat \<Rightarrow> real list list" where
  "identity n = map (\<lambda>i. map (\<lambda>j. if i = j then 1 else 0) [0..<n]) [0..<n]"

definition ones :: "nat \<Rightarrow> real list" where
  "ones n = replicate n 1"

text \<open>\<^verbatim>\<open>np.dot(A, B)\<close> of two matrices.\<close>

definition ncols :: "real list list \<Rightarrow> nat" where
  "ncols B = (case B of [] \<Rightarrow> 0 | b # _ \<Rightarrow> length b)"

definition dot :: "real list list \<Rightarrow> real list list \<Rightarrow> real list list" where
  "dot A B = map (\<lambda>r. map (\<lambda>j. sum_list (map2 (*) r (map (\<lambda>b. b ! j) B))) [0..<ncols B]) A"

text \<open>
  \<^verbatim>\<open>U*S\<close> and \<^verbatim>\<open>U/S\<close> with \<open>U\<close> a matrix and \<open>S\<close> a vector: numpy broadcasts \<open>S\<close> along
  the rows, so column \<open>j\<close> of \<open>U\<close> is scaled by \<open>S[j]\<close>.
\<close>

definition mul_bc :: "real list list \<Rightarrow> real list \<Rightarrow> real list list" where
  "mul_bc U S = map (\<lambda>r. map2 (*) r S) U"

definition div_bc :: "real list list \<Rightarrow> real list \<Rightarrow> real list list" where
  "div_bc U S = map (\<lambda>r. map2 (/) r S) U"

text \<open>\<^verbatim>\<open>S[:n] = Sp\<close> and \<^verbatim>\<open>U[:n,:n] = Up\<close> and \<^verbatim>\<open>M[:n] = R\<close>, for operands of matching shape.\<close>

definition set_prefix :: "nat \<Rightarrow> 'a list \<Rightarrow> 'a list \<Rightarrow> 'a list" where
  "set_prefix n Sp S = take n Sp @ drop n S"

definition set_block :: "nat \<Rightarrow> real list list \<Rightarrow> real list list \<Rightarrow> real list list" where
  "set_block n Up U =
     map (\<lambda>i. if i < n then set_prefix n (Up ! i) (U ! i) else U ! i) [0..<length U]"

text \<open>
  \<^verbatim>\<open>np.linalg.svd(rvecs, full_matrices=True)\<close> belongs to numpy, not to this program: it
  is a parameter of the model. For an input of shape \<open>(n, 3)\<close> with \<open>n \<le> 3\<close> it returns
  \<open>Up\<close> of shape \<open>(n, n)\<close>, \<open>Sp\<close> of length \<open>n\<close> and \<open>Vt\<close> of shape \<open>(3, 3)\<close>; \<open>None\<close> stands
  for \<^verbatim>\<open>LinAlgError\<close>.
\<close>

type_synonym svd = "real list list \<Rightarrow> (real list list \<times> real list \<times> real list list) option"

section \<open>The native Cell object\<close>

text \<open>
  The fields of the C++ class behind \<^verbatim>\<open>self._this\<close>: the number of periodic directions,
  the two \<open>3\<times>3\<close> matrices stored row-major as nine doubles, and the derived quantities.
\<close>

record cell =
  cell_nvec :: nat
  cell_rvecs :: "real list"
  cell_gvecs :: "real list"
  cell_rlengths :: "real list"
  cell_glengths :: "real list"
  cell_rspacings :: "real list"
  cell_gspacings :: "real list"
  cell_volume :: real

text \<open>Row \<open>i\<close> of a matrix stored row-major with three columns.\<close>

definition row3 :: "real list \<Rightarrow> nat \<Rightarrow> real list" where
  "row3 m i = take 3 (drop (3 * i) m)"

text \<open>The dot product and the Euclidean length of vectors, the determinant of nine doubles.\<close>

definition vdot :: "real list \<Rightarrow> real list \<Rightarrow> real" where
  "vdot u v = sum_list (map2 (*) u v)"

definition vlen :: "real list \<Rightarrow> real" where
  "vlen v = sqrt (vdot v v)"

definition det3 :: "real list \<Rightarrow> real" where
  "det3 m = m ! 0 * (m ! 4 * m ! 8 - m ! 5 * m ! 7)
          - m ! 1 * (m ! 3 * m ! 8 - m ! 5 * m ! 6)
          + m ! 2 * (m ! 3 * m ! 7 - m ! 4 * m ! 6)"

text \<open>
  Modelled from the spec: the volume computed by \<^verbatim>\<open>cell.cpp\<close>, which is not part of the
  sources. Section 3 of the specification: for \<open>nvec = 0\<close> the volume is defined as 1;
  otherwise it is the generalized length, area or volume of the parallelepiped spanned by
  the first \<open>nvec\<close> rows, always non-negative.
\<close>

definition compute_volume :: "nat \<Rightarrow> real list \<Rightarrow> real" where
  "compute_volume n r =
     (if n = 0 then 1
      else if n = 1 then vlen (row3 r 0)
      else if n = 2 then
        sqrt (vdot (row3 r 0) (row3 r 0) * vdot (row3 r 1) (row3 r 1)
              - vdot (row3 r 0) (row3 r 1) * vdot (row3 r 0) (row3 r 1))
      else \<bar>det3 r\<bar>)"

text \<open>
  Modelled from the spec: \<^verbatim>\<open>Cell::update(rvecs, gvecs, nvec)\<close> of \<^verbatim>\<open>cell.cpp\<close>, which is
  not part of the sources. Section 3 of the specification: the cell owns the two \<open>3\<times>3\<close>
  matrices and \<open>nvec\<close>; the lengths of the rows and the spacings (the inverse length of
  the paired vector of the other basis) are recomputed on every mutation. The nine
  doubles behind each pointer are stored as they are.
\<close>

definition Cell_update :: "cell \<Rightarrow> real list \<Rightarrow> real list \<Rightarrow> nat \<Rightarrow> cell" where
  "Cell_update self r g n =
     self\<lparr>cell_nvec := n, cell_rvecs := take 9 r, cell_gvecs := take 9 g,
          cell_rlengths := map (\<lambda>i. vlen (row3 r i)) [0..<3],
          cell_glengths := map (\<lambda>i. vlen (row3 g i)) [0..<3],
          cell_rspacings := map (\<lambda>i. 1 / vlen (row3 g i)) [0..<3],
          cell_gspacings := map (\<lambda>i. 1 / vlen (row3 r i)) [0..<3],
          cell_volume := compute_volume n r\<rparr>"

text \<open>
  Modelled from the spec: the default constructor of \<^verbatim>\<open>cell.cpp\<close>, which is not part of
  the sources. The specification does not describe the object made by \<^verbatim>\<open>__cinit__\<close>
  (\<^verbatim>\<open>new cell.Cell()\<close>) before \<^verbatim>\<open>__init__\<close> runs, and its fields are never read:
  \<^verbatim>\<open>__init__\<close> overwrites all of them or raises, and then no object is returned.
\<close>

definition Cell_cinit :: cell where
  "Cell_cinit = \<lparr>cell_nvec = 0, cell_rvecs = [], cell_gvecs = [], cell_rlengths = [], cell_glengths = [],
                 cell_rspacings = [], cell_gspacings = [], cell_volume = 0\<rparr>"

section \<open>Cell.update_rvecs and the constructor\<close>

text \<open>
  The method returns nothing and mutates \<^verbatim>\<open>self._this\<close>: the model returns the outcome
  together with the cell after the call. Division by a singular value that is zero gives
  an infinity in numpy; the model agrees with the code where the singular values are
  not zero.
\<close>

definition update_rvecs :: "svd \<Rightarrow> cell \<Rightarrow> ndarray option \<Rightarrow> (error + unit) \<times> cell" where
  "update_rvecs svd self rvecs =
     (if rvecs \<noteq> None \<and> ndim (the rvecs) \<noteq> 2
      then (Inl (ValueError ''Buffer has wrong number of dimensions''), self)
      else if rvecs = None \<or> size_nd (the rvecs) = 0
      then (let mod_rvecs = identity 3; gvecs = mod_rvecs
            in (Inr (), Cell_update self (concat mod_rvecs) (concat gvecs) 0))
      else (let a = the rvecs in
        if \<not> ndim a = 2 \<or> shape a ! 0 > 3 \<or> shape a ! 1 \<noteq> 3
        then (Inl (TypeError ''rvecs must be an array with three columns and at most three rows.''), self)
        else (let n = shape a ! 0 in
          case svd (rows_of a) of
            None \<Rightarrow> (Inl LinAlgError, self)
          | Some (Up, Sp, Vt) \<Rightarrow>
              (let S = set_prefix n Sp (ones 3);
                   U = set_block n Up (identity 3);
                   mod_rvecs = dot (mul_bc U S) Vt;
                   mod_rvecs = set_prefix n (rows_of a) mod_rvecs;
                   gvecs = dot (div_bc U S) Vt
               in (Inr (), Cell_update self (concat mod_rvecs) (concat gvecs) n)))))"

text \<open>\<^verbatim>\<open>Cell(rvecs)\<close>: \<^verbatim>\<open>__cinit__\<close>, then \<^verbatim>\<open>__init__\<close>, which calls \<^verbatim>\<open>update_rvecs\<close>.\<close>

definition Cell_init :: "svd \<Rightarrow> ndarray option \<Rightarrow> error + cell" where
  "Cell_init svd rvecs =
     (case update_rvecs svd Cell_cinit rvecs of
        (Inl e, _) \<Rightarrow> Inl e
      | (Inr _, c) \<Rightarrow> Inr c)"

section \<open>Cell.from_parameters\<close>

definition geometry_error :: error where
  "geometry_error = ValueError ''The given cell parameters do not correspond to a unit cell.''"

text \<open>The checks at the head of \<^verbatim>\<open>from_parameters\<close>, in the order of the source.\<close>

definition check_parameters :: "real list \<Rightarrow> real list \<Rightarrow> error option" where
  "check_parameters lengths angles =
     (if length lengths = 0 \<and> length angles \<noteq> 0
      then Some (TypeError ''When no lengths are given, no angles are expected.'')
      else if length lengths = 1 \<and> length angles \<noteq> 0
      then Some (TypeError ''When one length is given, no angles are expected.'')
      else if length lengths = 2 \<and> length angles \<noteq> 1
      then Some (TypeError ''When two lengths are given, one angle is expected.'')
      else if length lengths = 3 \<and> length angles \<noteq> 3
      then Some (TypeError ''When three lengths are given, three angles are expected.'')
      else if length lengths > 3
      then Some (ValueError ''More than three lengths are given.'')
      else if list_ex (\<lambda>l. l \<le> 0) lengths
      then Some (ValueError ''The length parameters must be strictly positive.'')
      else if list_ex (\<lambda>a. a \<le> 0 \<or> a \<ge> pi) angles
      then Some (ValueError ''The angle parameters must lie in the range ]0 deg, 180 deg[.'')
      else None)"

text \<open>
  The rest of the body up to the last line: the array handed to the constructor, or the
  error raised while the third vector is solved. \<open>None\<close> is \<^verbatim>\<open>Cell(None)\<close>.
\<close>

definition build_rvecs :: "real list \<Rightarrow> real list \<Rightarrow> error + ndarray option" where
  "build_rvecs lengths angles =
     (if length lengths = 0 then Inr None
      else
        (let rvecs = np_zeros [length lengths, 3];
             rvecs = (if length lengths > 0 then setitem2 rvecs 0 0 (lengths ! 0) else rvecs);
             rvecs = (if length lengths > 1 then
                        (let angle = (if length lengths = 2 then angles ! 0 else angles ! 2);
                             rvecs = setitem2 rvecs 1 0 (cos angle * lengths ! 1)
                         in setitem2 rvecs 1 1 (sin angle * lengths ! 1))
                      else rvecs)
         in if length lengths > 2 then
              (let u_a = lengths ! 0 * lengths ! 2 * cos (angles ! 1);
                   u_b = lengths ! 1 * lengths ! 2 * cos (angles ! 0);
                   rvecs = setitem2 rvecs 2 0 (u_a / getitem2 rvecs 0 0);
                   rvecs = setitem2 rvecs 2 1
                             ((u_b - getitem2 rvecs 1 0 * getitem2 rvecs 2 0) / getitem2 rvecs 1 1);
                   u_c = (lengths ! 2)\<^sup>2 - (getitem2 rvecs 2 0)\<^sup>2 - (getitem2 rvecs 2 1)\<^sup>2
               in if u_c < 0 then Inl geometry_error
                  else Inr (Some (setitem2 rvecs 2 2 (sqrt u_c))))
            else Inr (Some rvecs)))"

definition from_parameters :: "svd \<Rightarrow> real list \<Rightarrow> real list \<Rightarrow> error + cell" where
  "from_parameters svd lengths angles =
     (case check_parameters lengths angles of
        Some e \<Rightarrow> Inl e
      | None \<Rightarrow>
          (case build_rvecs lengths angles of
             Inl e \<Rightarrow> Inl e
           | Inr rvecs \<Rightarrow> Cell_init svd rvecs))"

section \<open>The array properties of Cell\<close>

text \<open>
  The numpy arrays a caller can hold live in a store: an array is named by its index, and
  a new array gets the next index. The native object is not in the store: no numpy
  array wraps its memory.
\<close>

record world =
  w_cell :: cell
  w_heap :: "ndarray list"

definition new_array :: "ndarray \<Rightarrow> world \<Rightarrow> nat \<times> world" where
  "new_array a w = (length (w_heap w), w\<lparr>w_heap := w_heap w @ [a]\<rparr>)"

text \<open>Writing doubles through \<^verbatim>\<open><double*>result.data\<close>, from the start of the buffer.\<close>

definition write_data :: "nat \<Rightarrow> real list \<Rightarrow> world \<Rightarrow> world" where
  "write_data p xs w =
     w\<lparr>w_heap := (w_heap w)[p := (w_heap w ! p)\<lparr>data := xs @ drop (length xs) (data (w_heap w ! p))\<rparr>]\<rparr>"

definition setflags_write :: "nat \<Rightarrow> bool \<Rightarrow> world \<Rightarrow> world" where
  "setflags_write p b w = w\<lparr>w_heap := (w_heap w)[p := (w_heap w ! p)\<lparr>writeable := b\<rparr>]\<rparr>"

text \<open>
  Modelled from the spec: \<^verbatim>\<open>get_nvec\<close> of \<^verbatim>\<open>cell.cpp\<close>, which is not part of the sources.
  Section 3 of the specification: \<open>nvec\<close> is the number of periodic directions; the query
  is pure and read-only.
\<close>

definition get_nvec :: "cell \<Rightarrow> nat" where
  "get_nvec c = cell_nvec c"

text \<open>
  Modelled from the spec: \<^verbatim>\<open>get_volume\<close> of \<^verbatim>\<open>cell.cpp\<close>, which is not part of the
  sources. Section 4.1 of the specification: the volume query is pure and read-only.
\<close>

definition get_volume :: "cell \<Rightarrow> real" where
  "get_volume c = cell_volume c"

text \<open>
  Modelled from the spec: \<^verbatim>\<open>copy_rvecs\<close> of \<^verbatim>\<open>cell.cpp\<close>, which is not part of the
  sources. Section 3 of the specification: rows from \<open>nvec\<close> on are never exposed; the
  first \<open>nvec\<close> rows of the real-space matrix are copied out.
\<close>

definition copy_rvecs :: "cell \<Rightarrow> real list" where
  "copy_rvecs c = take (3 * cell_nvec c) (cell_rvecs c)"

text \<open>
  Modelled from the spec: \<^verbatim>\<open>copy_gvecs\<close> of \<^verbatim>\<open>cell.cpp\<close>, which is not part of the
  sources: the first \<open>nvec\<close> rows of the reciprocal matrix are copied out.
\<close>

definition copy_gvecs :: "cell \<Rightarrow> real list" where
  "copy_gvecs c = take (3 * cell_nvec c) (cell_gvecs c)"

text \<open>
  Modelled from the spec: \<^verbatim>\<open>copy_rlengths\<close> of \<^verbatim>\<open>cell.cpp\<close>, which is not part of the
  sources: the lengths of the \<open>nvec\<close> active real-space vectors are copied out.
\<close>

definition copy_rlengths :: "cell \<Rightarrow> real list" where
  "copy_rlengths c = take (cell_nvec c) (cell_rlengths c)"

text \<open>
  Modelled from the spec: \<^verbatim>\<open>copy_glengths\<close> of \<^verbatim>\<open>cell.cpp\<close>, which is not part of the
  sources: the lengths of the \<open>nvec\<close> active reciprocal vectors are copied out.
\<close>

definition copy_glengths :: "cell \<Rightarrow> real list" where
  "copy_glengths c = take (cell_nvec c) (cell_glengths c)"

text \<open>
  Modelled from the spec: \<^verbatim>\<open>copy_rspacings\<close> of \<^verbatim>\<open>cell.cpp\<close>, which is not part of the
  sources: the real-space spacings of the \<open>nvec\<close> active directions are copied out.
\<close>

definition copy_rspacings :: "cell \<Rightarrow> real list" where
  "copy_rspacings c = take (cell_nvec c) (cell_rspacings c)"

text \<open>
  Modelled from the spec: \<^verbatim>\<open>copy_gspacings\<close> of \<^verbatim>\<open>cell.cpp\<close>, which is not part of the
  sources: the reciprocal spacings of the \<open>nvec\<close> active directions are copied out.
\<close>

definition copy_gspacings :: "cell \<Rightarrow> real list" where
  "copy_gspacings c = take (cell_nvec c) (cell_gspacings c)"

text \<open>
  The six array properties share one body: allocate zeros of the shape, let the native
  object copy into them, clear the write flag, return the array.
\<close>

definition rvecs_get :: "world \<Rightarrow> nat \<times> world" where
  "rvecs_get w =
     (let (result, w) = new_array (np_zeros [get_nvec (w_cell w), 3]) w;
          w = write_data result (copy_rvecs (w_cell w)) w;
          w = setflags_write result False w
      in (result, w))"

definition gvecs_get :: "world \<Rightarrow> nat \<times> world" where
  "gvecs_get w =
     (let (result, w) = new_array (np_zeros [get_nvec (w_cell w), 3]) w;
          w = write_data result (copy_gvecs (w_cell w)) w;
          w = setflags_write result False w
      in (result, w))"

definition rlengths_get :: "world \<Rightarrow> nat \<times> world" where
  "rlengths_get w =
     (let (result, w) = new_array (np_zeros [get_nvec (w_cell w)]) w;
          w = write_data result (copy_rlengths (w_cell w)) w;
          w = setflags_write result False w
      in (result, w))"

definition glengths_get :: "world \<Rightarrow> nat \<times> world" where
  "glengths_get w =
     (let (result, w) = new_array (np_zeros [get_nvec (w_cell w)]) w;
          w = write_data result (copy_glengths (w_cell w)) w;
          w = setflags_write result False w
      in (result, w))"

definition rspacings_get :: "world \<Rightarrow> nat \<times> world" where
  "rspacings_get w =
     (let (result, w) = new_array (np_zeros [get_nvec (w_cell w)]) w;
          w = write_data result (copy_rspacings (w_cell w)) w;
          w = setflags_write result False w
      in (result, w))"

definition gspacings_get :: "world \<Rightarrow> nat \<times> world" where
  "gspacings_get w =
     (let (result, w) = new_array (np_zeros [get_nvec (w_cell w)]) w;
          w = write_data result (copy_gspacings (w_cell w)) w;
          w = setflags_write result False w
      in (result, w))"

text \<open>
  The \<^verbatim>\<open>parameters\<close> property. \<^verbatim>\<open>tmp\<close> and \<^verbatim>\<open>cosines\<close> never leave the body and are
  plain values; \<^verbatim>\<open>lengths\<close> is the array made by \<^verbatim>\<open>self.rlengths\<close>, and \<^verbatim>\<open>angles\<close> is the
  new array made by \<^verbatim>\<open>np.arccos\<close>, which numpy returns writable.
\<close>

definition transpose_m :: "real list list \<Rightarrow> real list list" where
  "transpose_m A = map (\<lambda>j. map (\<lambda>r. r ! j) A) [0..<ncols A]"

definition div_rows :: "real list list \<Rightarrow> real list \<Rightarrow> real list list" where
  "div_rows A L = map2 (\<lambda>r l. map (\<lambda>x. x / l) r) A L"

definition clip :: "real \<Rightarrow> real \<Rightarrow> real \<Rightarrow> real" where
  "clip x lo hi = min hi (max lo x)"

definition parameters_get :: "world \<Rightarrow> (nat \<times> nat) \<times> world" where
  "parameters_get w =
     (let (lengths, w) = rlengths_get w;
          (rvecs, w) = rvecs_get w;
          R = rows_of (w_heap w ! rvecs);
          L = data (w_heap w ! lengths);
          tmp = dot R (transpose_m R);
          tmp = div_bc tmp L;
          tmp = div_rows tmp L;
          cosines = (if length R < 2 then []
                     else if length R = 2 then [tmp ! 0 ! 1]
                     else [tmp ! 1 ! 2, tmp ! 2 ! 0, tmp ! 0 ! 1]);
          (angles, w) = new_array \<lparr>shape = [length cosines],
                                   data = map (\<lambda>x. arccos (clip x (- 1) 1)) cosines,
                                   writeable = True\<rparr> w
      in ((lengths, angles), w))"

text \<open>A caller running read-only queries one after the other, dropping the results.\<close>

datatype query = Q_rvecs | Q_gvecs | Q_rlengths | Q_glengths | Q_rspacings | Q_gspacings
  | Q_parameters

fun run_query :: "query \<Rightarrow> world \<Rightarrow> world" where
  "run_query Q_rvecs w = snd (rvecs_get w)"
| "run_query Q_gvecs w = snd (gvecs_get w)"
| "run_query Q_rlengths w = snd (rlengths_get w)"
| "run_query Q_glengths w = snd (glengths_get w)"
| "run_query Q_rspacings w = snd (rspacings_get w)"
| "run_query Q_gspacings w = snd (gspacings_get w)"
| "run_query Q_parameters w = snd (parameters_get w)"

fun run_queries :: "query list \<Rightarrow> world \<Rightarrow> world" where
  "run_queries [] w = w"
| "run_queries (q # qs) w = run_queries qs (run_query q w)"

text \<open>
  A caller writing \<^verbatim>\<open>a[i] = v\<close> into the buffer of an array it holds: numpy refuses when
  the write flag is cleared.
\<close>

definition caller_write :: "nat \<Rightarrow> nat \<Rightarrow> real \<Rightarrow> world \<Rightarrow> (error + unit) \<times> world" where
  "caller_write p i v w =
     (if writeable (w_heap w ! p)
      then (Inr (), w\<lparr>w_heap := (w_heap w)[p := (w_heap w ! p)\<lparr>data := (data (w_heap w ! p))[i := v]\<rparr>]\<rparr>)
      else (Inl (ValueError ''assignment destination is read-only''), w))"

section \<open>fill_radial_polynomials\<close>

text \<open>
  Modelled from the spec: \<^verbatim>\<open>fill_radial_polynomials\<close> of \<^verbatim>\<open>moments.cpp\<close>, which is not
  part of the sources. Section 4.2 of the specification: the radial variant fills
  successive powers of a scalar radius up to \<open>lmax\<close>. The wrapper's documentation: the
  first element is the radius, and all elements after the first are filled with
  increasing powers of the first element, up to \<open>lmax\<close>; the wrapper asks for \<open>lmax\<close>
  slots, so slot \<open>l\<close> holds power \<open>l + 1\<close>.
\<close>

definition moments_fill_radial_polynomials :: "real list \<Rightarrow> int \<Rightarrow> real list" where
  "moments_fill_radial_polynomials output lmax =
     foldl (\<lambda>out l. out[l := out ! 0 * out ! (l - 1)]) output [1..<nat lmax]"

definition fill_radial_polynomials :: "real list \<Rightarrow> int \<Rightarrow> error + real list" where
  "fill_radial_polynomials output lmax =
     (if int (length output) < lmax
      then Inl (ValueError ''The size of the output array is not sufficient to store the polynomials.'')
      else Inr (moments_fill_radial_polynomials output lmax))"

section \<open>The error classes of the specification\<close>

text \<open>
  The specification names two classes. A geometry error is the \<^verbatim>\<open>ValueError\<close> raised
  when the third vector cannot be solved; every other \<^verbatim>\<open>TypeError\<close> or \<^verbatim>\<open>ValueError\<close>
  of the binding is an invalid argument.
\<close>

definition invalid_argument :: "error \<Rightarrow> bool" where
  "invalid_argument e =
     (case e of TypeError _ \<Rightarrow> True | ValueError _ \<Rightarrow> e \<noteq> geometry_error | _ \<Rightarrow> False)"

definition supported_counts :: "nat \<Rightarrow> nat \<Rightarrow> bool" where
  "supported_counts nl na =
     ((nl = 0 \<and> na = 0) \<or> (nl = 1 \<and> na = 0) \<or> (nl = 2 \<and> na = 1) \<or> (nl = 3 \<and> na = 3))"

section \<open>The stored matrices and the contract of the decomposition\<close>

text \<open>The nine stored doubles of a matrix of the cell, as three rows.\<close>

definition mat3_of :: "real list \<Rightarrow> real list list" where
  "mat3_of m = map (row3 m) [0..<3]"

text \<open>
  What numpy documents for \<^verbatim>\<open>np.linalg.svd(A, full_matrices=True)\<close> on an \<open>n\<times>3\<close> matrix
  with \<open>n \<le> 3\<close>, in exact arithmetic: \<open>Up\<close> is \<open>n\<times>n\<close> and \<open>Vt\<close> is \<open>3\<times>3\<close>, both with
  orthonormal rows, \<open>Sp\<close> holds the \<open>n\<close> singular values, and \<open>A\<close> is the product of \<open>Up\<close>,
  the diagonal matrix of \<open>Sp\<close> and the first \<open>n\<close> rows of \<open>Vt\<close>.
\<close>

definition svd_contract :: "real list list \<Rightarrow> real list list \<times> real list \<times> real list list \<Rightarrow> bool" where
  "svd_contract A F =
     (case F of (Up, Sp, Vt) \<Rightarrow>
        length Up = length A \<and> (\<forall>r\<in>set Up. length r = length A) \<and> length Sp = length A
        \<and> length Vt = 3 \<and> (\<forall>r\<in>set Vt. length r = 3)
        \<and> dot Up (transpose_m Up) = identity (length A)
        \<and> dot Vt (transpose_m Vt) = identity 3
        \<and> dot (mul_bc Up Sp) (take (length A) Vt) = A)"

section \<open>Parametric construction: the checks\<close>

lemma check_parameters_invalid:
  "check_parameters lengths angles = Some e \<Longrightarrow> invalid_argument e"
  by (auto simp: check_parameters_def invalid_argument_def geometry_error_def split: if_splits)

lemma check_parameters_None_iff:
  "check_parameters lengths angles = None \<longleftrightarrow>
     supported_counts (length lengths) (length angles)
     \<and> (\<forall>l\<in>set lengths. 0 < l) \<and> (\<forall>a\<in>set angles. 0 < a \<and> a < pi)"
proof -
  consider "length lengths = 0" | "length lengths = 1" | "length lengths = 2"
    | "length lengths = 3" | "length lengths > 3" by linarith
  then show ?thesis
    by cases (auto simp: check_parameters_def supported_counts_def list_ex_iff not_le not_less)
qed

text \<open>
  C6. \<^verbatim>\<open>from_parameters\<close> raises an invalid-argument error, and builds no cell, whenever
  the counts of lengths and angles are not one of 0/0, 1/0, 2/1, 3/3, or some length is
  not positive, or some angle is not strictly between 0 and \<open>\<pi>\<close>.
\<close>

theorem from_parameters_invalid_argument:
  assumes "\<not> supported_counts (length lengths) (length angles)
           \<or> (\<exists>l\<in>set lengths. l \<le> 0) \<or> (\<exists>a\<in>set angles. a \<le> 0 \<or> pi \<le> a)"
  shows "\<exists>e. from_parameters svd lengths angles = Inl e \<and> invalid_argument e"
proof -
  from assms have "check_parameters lengths angles \<noteq> None"
    unfolding check_parameters_None_iff by (auto simp: not_less)
  then obtain e where e: "check_parameters lengths angles = Some e" by auto
  then have "from_parameters svd lengths angles = Inl e" by (simp add: from_parameters_def)
  with check_parameters_invalid[OF e] show ?thesis by blast
qed

theorem from_parameters_invalid_argument_witness:
  "(\<exists>e. from_parameters (\<lambda>_. None) [2, 3] [] = Inl e \<and> invalid_argument e)
   \<and> (\<exists>e. from_parameters (\<lambda>_. None) [2, -1] [1] = Inl e \<and> invalid_argument e)
   \<and> (\<exists>e. from_parameters (\<lambda>_. None) [2, 1] [4] = Inl e \<and> invalid_argument e)"
  using from_parameters_invalid_argument [of "[2, 3]" "[]" "\<lambda>_. None"]
        from_parameters_invalid_argument [of "[2, -1]" "[1]" "\<lambda>_. None"]
        from_parameters_invalid_argument [of "[2, 1]" "[4]" "\<lambda>_. None"]
        pi_less_4
  by (simp add: supported_counts_def)

section \<open>What update_rvecs stores\<close>

lemma concat_rows: "concat (map (\<lambda>i. take c (drop (i * c) d)) [0..<n]) = take (n * c) d"
proof (induction n)
  case 0
  then show ?case by simp
next
  case (Suc n)
  have "take (n * c) d @ take c (drop (n * c) d) = take (n * c + c) d"
    by (simp add: take_add)
  with Suc show ?case by (simp add: add.commute)
qed

lemma concat_rows_of:
  "shape a = [n, 3] \<Longrightarrow> length (data a) = 3 * n \<Longrightarrow> concat (rows_of a) = data a"
  by (simp add: rows_of_def concat_rows mult.commute)

lemma length_rows_of: "shape a = [n, 3] \<Longrightarrow> length (rows_of a) = n"
  by (simp add: rows_of_def)

lemma update_rvecs_Some_ok:
  assumes "update_rvecs svd self (Some a) = (Inr (), c)"
    and "shape a = [n, 3]" and "n \<le> 3" and "length (data a) = 3 * n"
  shows "cell_nvec c = n \<and> take (3 * n) (cell_rvecs c) = data a"
proof (cases "n = 0")
  case True
  with assms show ?thesis
    by (auto simp: update_rvecs_def ndim_def size_nd_def Cell_update_def Let_def)
next
  case False
  with assms obtain Up Sp Vt where svd: "svd (rows_of a) = Some (Up, Sp, Vt)"
    by (auto simp: update_rvecs_def ndim_def size_nd_def split: option.splits)
  define M where "M = dot (mul_bc (set_block n Up (identity 3)) (set_prefix n Sp (ones 3))) Vt"
  define G where "G = dot (div_bc (set_block n Up (identity 3)) (set_prefix n Sp (ones 3))) Vt"
  from assms False svd have c: "c = Cell_update self (concat (set_prefix n (rows_of a) M)) (concat G) n"
    by (simp add: update_rvecs_def ndim_def size_nd_def Let_def M_def G_def)
  have "concat (set_prefix n (rows_of a) M) = data a @ concat (drop n M)"
    using assms by (simp add: set_prefix_def length_rows_of concat_rows_of)
  with assms show ?thesis by (simp add: c Cell_update_def)
qed



lemma Cell_init_Some_ok:
  assumes "Cell_init svd (Some a) = Inr c"
    and "shape a = [n, 3]" and "n \<le> 3" and "length (data a) = 3 * n"
  shows "cell_nvec c = n \<and> take (3 * n) (cell_rvecs c) = data a"
proof -
  from assms(1) have "update_rvecs svd Cell_cinit (Some a) = (Inr (), c)"
    by (auto simp: Cell_init_def split: prod.splits sum.splits)
  then show ?thesis using assms(2-4) by (rule update_rvecs_Some_ok)
qed






section \<open>Evaluation on concrete inputs\<close>

lemmas eval_defs = update_rvecs_def Cell_init_def ndim_def size_nd_def rows_of_def set_prefix_def
  set_block_def identity_def ones_def dot_def ncols_def mul_bc_def div_bc_def Let_def

lemma upt3: "[0..<3] = [0, 1, 2]"
  by (simp add: numeral_eq_Suc)

lemma nth3:
  "[x0, x1, x2] ! 1 = x1" "[x0, x1, x2] ! 2 = x2"
  by (simp_all add: numeral_eq_Suc)

section \<open>Parametric construction: the lattice\<close>












section \<open>The lattice vectors come back as supplied\<close>

lemma getter_body:
  "setflags_write (length (w_heap w)) False
     (write_data (length (w_heap w)) xs (snd (new_array (np_zeros sh) w)))
   = w\<lparr>w_heap := w_heap w @ [\<lparr>shape = sh,
          data = xs @ drop (length xs) (replicate (prod_list sh) 0), writeable = False\<rparr>]\<rparr>"
  by (simp add: setflags_write_def write_data_def new_array_def np_zeros_def)

lemma rvecs_get_eq:
  "rvecs_get w = (length (w_heap w),
     w\<lparr>w_heap := w_heap w @ [\<lparr>shape = [cell_nvec (w_cell w), 3],
          data = copy_rvecs (w_cell w)
                 @ drop (length (copy_rvecs (w_cell w))) (replicate (cell_nvec (w_cell w) * 3) 0),
          writeable = False\<rparr>]\<rparr>)"
  using getter_body [of w "copy_rvecs (w_cell w)" "[cell_nvec (w_cell w), 3]"]
  by (simp add: rvecs_get_def get_nvec_def new_array_def Let_def)

lemma update_rvecs_None_ok:
  "update_rvecs svd self None
     = (Inr (), Cell_update self (concat (identity 3)) (concat (identity 3)) 0)"
  by (simp add: update_rvecs_def Let_def)

text \<open>
  C1. For an input of shape \<open>(nvec, 3)\<close> with \<open>nvec\<close> from 0 to 3, after the constructor or
  \<^verbatim>\<open>update_rvecs\<close> has returned, the array that the \<^verbatim>\<open>rvecs\<close> property returns has the
  shape and the entries of the input: the first \<open>nvec\<close> rows of the stored basis are the
  supplied vectors, neither reordered nor rescaled, whatever the decomposition returned.
\<close>

theorem rvecs_property_returns_input:
  assumes "shape a = [n, 3]" and "n \<le> 3" and "length (data a) = 3 * n"
    and "update_rvecs svd self (Some a) = (Inr (), c) \<or> Cell_init svd (Some a) = Inr c"
    and "rvecs_get \<lparr>w_cell = c, w_heap = h\<rparr> = (p, w)"
  shows "shape (w_heap w ! p) = shape a \<and> data (w_heap w ! p) = data a"
proof -
  from assms(4) have "cell_nvec c = n \<and> take (3 * n) (cell_rvecs c) = data a"
    using update_rvecs_Some_ok [OF _ assms(1-3)] Cell_init_Some_ok [OF _ assms(1-3)] by blast
  then have n: "cell_nvec c = n" and cp: "copy_rvecs c = data a"
    by (simp_all add: copy_rvecs_def)
  from assms(5) have p: "p = length h"
    and w: "w_heap w = h @ [\<lparr>shape = [n, 3],
          data = data a @ drop (length (data a)) (replicate (n * 3) 0), writeable = False\<rparr>]"
    by (auto simp: rvecs_get_eq n cp)
  show ?thesis using assms(1,3) by (simp add: p w mult.commute)
qed

theorem rvecs_property_returns_input_witness:
  "update_rvecs (\<lambda>_. Some ([[0, 1], [1, 0]], [3, 2], [[0, 1, 0], [1, 0, 0], [0, 0, 1]])) Cell_cinit
       (Some \<lparr>shape = [2, 3], data = [2, 0, 0, 0, 3, 0], writeable = True\<rparr>)
     = (Inr (), Cell_update Cell_cinit [2, 0, 0, 0, 3, 0, 0, 0, 1] [1 / 2, 0, 0, 0, 1 / 3, 0, 0, 0, 1] 2)
   \<and> shape (w_heap (snd (rvecs_get \<lparr>w_cell = Cell_update Cell_cinit [2, 0, 0, 0, 3, 0, 0, 0, 1]
                                                [1 / 2, 0, 0, 0, 1 / 3, 0, 0, 0, 1] 2, w_heap = []\<rparr>))
        ! fst (rvecs_get \<lparr>w_cell = Cell_update Cell_cinit [2, 0, 0, 0, 3, 0, 0, 0, 1]
                                      [1 / 2, 0, 0, 0, 1 / 3, 0, 0, 0, 1] 2, w_heap = []\<rparr>)) = [2, 3]
   \<and> data (w_heap (snd (rvecs_get \<lparr>w_cell = Cell_update Cell_cinit [2, 0, 0, 0, 3, 0, 0, 0, 1]
                                                [1 / 2, 0, 0, 0, 1 / 3, 0, 0, 0, 1] 2, w_heap = []\<rparr>))
        ! fst (rvecs_get \<lparr>w_cell = Cell_update Cell_cinit [2, 0, 0, 0, 3, 0, 0, 0, 1]
                                      [1 / 2, 0, 0, 0, 1 / 3, 0, 0, 0, 1] 2, w_heap = []\<rparr>))
       = [2, 0, 0, 0, 3, 0]"
proof -
  let ?svd = "\<lambda>_ :: real list list. Some ([[0, 1], [1, 0]], [3, 2], [[0, 1, 0], [1, 0, 0], [0, 0, 1 :: real]])"
  let ?a = "\<lparr>shape = [2, 3], data = [2, 0, 0, 0, 3, 0], writeable = True\<rparr>"
  let ?c = "Cell_update Cell_cinit [2, 0, 0, 0, 3, 0, 0, 0, 1] [1 / 2, 0, 0, 0, 1 / 3, 0, 0, 0, 1] 2"
  have u: "update_rvecs ?svd Cell_cinit (Some ?a) = (Inr (), ?c)"
    by (simp add: eval_defs upt3 numeral_eq_Suc)
  have g: "rvecs_get \<lparr>w_cell = ?c, w_heap = []\<rparr>
      = (fst (rvecs_get \<lparr>w_cell = ?c, w_heap = []\<rparr>), snd (rvecs_get \<lparr>w_cell = ?c, w_heap = []\<rparr>))"
    by simp
  have "shape ?a = [2, 3]" "(2::nat) \<le> 3" "length (data ?a) = 3 * 2" by simp_all
  from rvecs_property_returns_input [OF this disjI1 [OF u] g] u show ?thesis
    by simp
qed

section \<open>Rejected updates\<close>

lemma update_rvecs_ndim:
  "ndim a \<noteq> 2 \<Longrightarrow>
     update_rvecs svd self (Some a) = (Inl (ValueError ''Buffer has wrong number of dimensions''), self)"
  by (simp add: update_rvecs_def)

lemma update_rvecs_shape:
  "ndim a = 2 \<Longrightarrow> size_nd a \<noteq> 0 \<Longrightarrow> shape a ! 0 > 3 \<or> shape a ! 1 \<noteq> 3 \<Longrightarrow>
     update_rvecs svd self (Some a)
       = (Inl (TypeError ''rvecs must be an array with three columns and at most three rows.''), self)"
  by (auto simp: update_rvecs_def Let_def)

lemma update_rvecs_atomic:
  "fst (update_rvecs svd self x) = Inl e \<Longrightarrow> snd (update_rvecs svd self x) = self"
  by (auto simp: update_rvecs_def Let_def split: if_splits option.splits)

text \<open>
  C4, as amended. \<^verbatim>\<open>update_rvecs\<close> raises an invalid-argument error for every array that
  is not two-dimensional, and for every two-dimensional array with at least one element
  that has more than three rows or a number of columns other than three. A call that
  raises, for whatever reason, leaves every field of the cell as it was. A two-dimensional
  array without elements is accepted, whatever its shape, as the lattice without vectors.
\<close>

theorem update_rvecs_rejects_atomically:
  "(ndim a \<noteq> 2 \<or> (size_nd a \<noteq> 0 \<and> (shape a ! 0 > 3 \<or> shape a ! 1 \<noteq> 3)) \<longrightarrow>
      (\<exists>e. update_rvecs svd self (Some a) = (Inl e, self) \<and> invalid_argument e))
   \<and> (fst (update_rvecs svd self x) = Inl e' \<longrightarrow> snd (update_rvecs svd self x) = self)
   \<and> (ndim a = 2 \<and> size_nd a = 0 \<longrightarrow>
        update_rvecs svd self (Some a)
          = (Inr (), Cell_update self (concat (identity 3)) (concat (identity 3)) 0))"
proof (intro conjI impI)
  assume h: "ndim a \<noteq> 2 \<or> (size_nd a \<noteq> 0 \<and> (shape a ! 0 > 3 \<or> shape a ! 1 \<noteq> 3))"
  show "\<exists>e. update_rvecs svd self (Some a) = (Inl e, self) \<and> invalid_argument e"
  proof (cases "ndim a = 2")
    case False
    then show ?thesis
      by (simp add: update_rvecs_ndim invalid_argument_def geometry_error_def)
  next
    case True
    with h show ?thesis
      by (simp add: update_rvecs_shape invalid_argument_def)
  qed
next
  assume "fst (update_rvecs svd self x) = Inl e'"
  then show "snd (update_rvecs svd self x) = self" by (rule update_rvecs_atomic)
next
  assume "ndim a = 2 \<and> size_nd a = 0"
  then show "update_rvecs svd self (Some a)
          = (Inr (), Cell_update self (concat (identity 3)) (concat (identity 3)) 0)"
    by (simp add: update_rvecs_def Let_def)
qed

theorem update_rvecs_rejects_atomically_witness:
  "update_rvecs (\<lambda>_. None)
       (Cell_update Cell_cinit [1, 0, 0, 0, 1, 0, 0, 0, 1] [1, 0, 0, 0, 1, 0, 0, 0, 1] 0)
       (Some \<lparr>shape = [4, 3], data = replicate 12 1, writeable = True\<rparr>)
     = (Inl (TypeError ''rvecs must be an array with three columns and at most three rows.''),
        Cell_update Cell_cinit [1, 0, 0, 0, 1, 0, 0, 0, 1] [1, 0, 0, 0, 1, 0, 0, 0, 1] 0)
   \<and> update_rvecs (\<lambda>_. None) Cell_cinit (Some \<lparr>shape = [0, 5], data = [], writeable = True\<rparr>)
     = (Inr (), Cell_update Cell_cinit (concat (identity 3)) (concat (identity 3)) 0)"
proof -
  let ?a = "\<lparr>shape = [4, 3], data = replicate 12 1, writeable = True\<rparr>"
  let ?b = "\<lparr>shape = [0, 5], data = [], writeable = True\<rparr>"
  let ?c = "Cell_update Cell_cinit [1, 0, 0, 0, 1, 0, 0, 0, 1] [1, 0, 0, 0, 1, 0, 0, 0, 1] 0"
  have h: "ndim ?a \<noteq> 2 \<or> (size_nd ?a \<noteq> 0 \<and> (shape ?a ! 0 > 3 \<or> shape ?a ! 1 \<noteq> 3))"
    by (simp add: ndim_def size_nd_def)
  have e: "fst (update_rvecs (\<lambda>_. None) ?c (Some ?a))
     = Inl (TypeError ''rvecs must be an array with three columns and at most three rows.'')"
    by (simp add: update_rvecs_def ndim_def size_nd_def)
  have k: "ndim ?b = 2 \<and> size_nd ?b = 0"
    by (simp add: ndim_def size_nd_def)
  from update_rvecs_rejects_atomically [of ?a "\<lambda>_. None" ?c "Some ?a"
      "TypeError ''rvecs must be an array with three columns and at most three rows.''"] h e
  have 1: "update_rvecs (\<lambda>_. None) ?c (Some ?a)
     = (Inl (TypeError ''rvecs must be an array with three columns and at most three rows.''), ?c)"
    by (metis prod.collapse)
  from update_rvecs_rejects_atomically [of ?b "\<lambda>_. None" Cell_cinit] k
  have 2: "update_rvecs (\<lambda>_. None) Cell_cinit (Some ?b)
     = (Inr (), Cell_update Cell_cinit (concat (identity 3)) (concat (identity 3)) 0)"
    by blast
  from 1 2 show ?thesis by blast
qed

text \<open>
  As first stated, C4 fails: an array of shape \<open>(4, 0)\<close> has more than three rows and
  fewer than three columns, but it has no elements, and the test \<^verbatim>\<open>rvecs.size == 0\<close>
  comes first: the call succeeds and the cell becomes the cell without vectors.
\<close>

theorem update_rvecs_empty_counterexample:
  "update_rvecs (\<lambda>_. None) Cell_cinit (Some \<lparr>shape = [4, 0], data = [], writeable = True\<rparr>)
     = (Inr (), Cell_update Cell_cinit [1, 0, 0, 0, 1, 0, 0, 0, 1] [1, 0, 0, 0, 1, 0, 0, 0, 1] 0)"
  by (simp add: eval_defs upt3)

section \<open>The cell without vectors\<close>

lemma update_rvecs_nvec0:
  assumes "update_rvecs svd self x = (Inr (), c)" and "cell_nvec c = 0"
  shows "c = Cell_update self (concat (identity 3)) (concat (identity 3)) 0"
proof (cases "x = None \<or> size_nd (the x) = 0")
  case True
  with assms(1) show ?thesis
    by (auto simp: update_rvecs_def Let_def split: if_splits)
next
  case False
  then obtain a where x: "x = Some a" and sz: "size_nd a \<noteq> 0" by auto
  from assms(1) x have nd: "ndim a = 2"
    by (auto simp: update_rvecs_def split: if_splits)
  then obtain r k where sh: "shape a = [r, k]"
    by (auto simp: ndim_def length_Suc_conv numeral_eq_Suc)
  with sz have "r \<noteq> 0" by (simp add: size_nd_def)
  moreover from assms(1) x sz nd sh have "cell_nvec c = r"
    by (auto simp: update_rvecs_def Let_def Cell_update_def split: if_splits option.splits)
  ultimately show ?thesis using assms(2) by simp
qed

lemma concat_identity3: "concat (identity 3) = [1, 0, 0, 0, 1, 0, 0, 0, 1]"
  by (simp add: identity_def upt3)

text \<open>
  C8. In every cell with \<open>nvec = 0\<close>, as left by the constructor or by \<^verbatim>\<open>update_rvecs\<close>
  (called with \<^verbatim>\<open>None\<close> or with an array without elements), the stored real-space and
  reciprocal matrices are both the \<open>3\<times>3\<close> identity and the volume is 1. The \<^verbatim>\<open>rvecs\<close> and
  \<^verbatim>\<open>gvecs\<close> properties show the first \<open>nvec\<close> rows only, here none.
\<close>

theorem nvec0_identity_volume1:
  assumes "update_rvecs svd self x = (Inr (), c) \<or> Cell_init svd x = Inr c"
    and "get_nvec c = 0"
  shows "cell_rvecs c = [1, 0, 0, 0, 1, 0, 0, 0, 1] \<and> cell_gvecs c = [1, 0, 0, 0, 1, 0, 0, 0, 1]
         \<and> get_volume c = 1"
proof -
  from assms(1) obtain s where "update_rvecs svd s x = (Inr (), c)"
    by (auto simp: Cell_init_def split: prod.splits sum.splits)
  with assms(2) have "c = Cell_update s (concat (identity 3)) (concat (identity 3)) 0"
    by (simp add: update_rvecs_nvec0 get_nvec_def)
  then show ?thesis
    by (simp add: Cell_update_def concat_identity3 get_volume_def compute_volume_def)
qed

theorem nvec0_identity_volume1_witness:
  "Cell_init (\<lambda>_. None) None
     = Inr (Cell_update Cell_cinit [1, 0, 0, 0, 1, 0, 0, 0, 1] [1, 0, 0, 0, 1, 0, 0, 0, 1] 0)
   \<and> Cell_init (\<lambda>_. None) (Some \<lparr>shape = [0, 3], data = [], writeable = True\<rparr>)
     = Inr (Cell_update Cell_cinit [1, 0, 0, 0, 1, 0, 0, 0, 1] [1, 0, 0, 0, 1, 0, 0, 0, 1] 0)
   \<and> get_nvec (Cell_update Cell_cinit [1, 0, 0, 0, 1, 0, 0, 0, 1] [1, 0, 0, 0, 1, 0, 0, 0, 1] 0) = 0
   \<and> cell_gvecs (Cell_update Cell_cinit [1, 0, 0, 0, 1, 0, 0, 0, 1] [1, 0, 0, 0, 1, 0, 0, 0, 1] 0)
       = [1, 0, 0, 0, 1, 0, 0, 0, 1]
   \<and> get_volume (Cell_update Cell_cinit [1, 0, 0, 0, 1, 0, 0, 0, 1] [1, 0, 0, 0, 1, 0, 0, 0, 1] 0) = 1"
proof -
  let ?c = "Cell_update Cell_cinit [1, 0, 0, 0, 1, 0, 0, 0, 1] [1, 0, 0, 0, 1, 0, 0, 0, 1] 0"
  have i: "Cell_init (\<lambda>_. None) None = Inr ?c"
    by (simp add: eval_defs upt3)
  have j: "Cell_init (\<lambda>_. None) (Some \<lparr>shape = [0, 3], data = [], writeable = True\<rparr>) = Inr ?c"
    by (simp add: eval_defs upt3)
  have n: "get_nvec ?c = 0" by (simp add: get_nvec_def Cell_update_def)
  from nvec0_identity_volume1 [OF disjI2 [OF i] n] i j n show ?thesis by simp
qed

section \<open>Radial polynomials\<close>

lemma fill_step_invariant:
  assumes "k \<le> length (output :: real list)" and "0 < length output"
  shows "length (foldl (\<lambda>out l. out[l := out ! 0 * out ! (l - 1)]) output [1..<k]) = length output
    \<and> (\<forall>l<length output.
          foldl (\<lambda>out l. out[l := out ! 0 * out ! (l - 1)]) output [1..<k] ! l
            = (if l < k then (output ! 0) ^ (l + 1) else output ! l))"
  using assms
proof (induction k)
  case 0
  then show ?case by simp
next
  case (Suc k)
  show ?case
  proof (cases "k = 0")
    case True
    then show ?thesis by simp
  next
    case False
    let ?out = "foldl (\<lambda>out l. out[l := out ! 0 * out ! (l - 1)]) output [1..<k]"
    from Suc have len: "length ?out = length output"
      and ih: "\<And>l. l < length output \<Longrightarrow> ?out ! l = (if l < k then (output ! 0) ^ (l + 1) else output ! l)"
      by simp_all
    from False have upt: "[1..<Suc k] = [1..<k] @ [k]" by simp
    have k: "k < length output" using Suc.prems by simp
    have z: "?out ! 0 = output ! 0" using ih [of 0] Suc.prems False by simp
    have p: "?out ! (k - 1) = (output ! 0) ^ k" using ih [of "k - 1"] k False by simp
    show ?thesis
      unfolding upt foldl_append
      using len k z p ih by (auto simp: nth_list_update less_Suc_eq)
  qed
qed

lemma list3: "length xs = 3 \<Longrightarrow> xs = [xs ! 0, xs ! 1, xs ! 2]"
  by (auto simp: length_Suc_conv numeral_eq_Suc)

text \<open>
  C9. When the output has room for \<open>lmax\<close> values, \<^verbatim>\<open>fill_radial_polynomials\<close> returns
  normally and slot \<open>l\<close> below \<open>lmax\<close> holds power \<open>l + 1\<close> of the first element, the
  slots from \<open>lmax\<close> on being left alone: successive powers starting at power 1. With
  seed radius 2 and \<open>lmax = 3\<close> the three slots hold 2, 4 and 8.
\<close>

theorem fill_radial_polynomials_powers:
  assumes "lmax \<le> int (length output)"
  shows "\<exists>out. fill_radial_polynomials output lmax = Inr out \<and> length out = length output
    \<and> (\<forall>l<length output. out ! l = (if int l < lmax then (output ! 0) ^ (l + 1) else output ! l))"
proof (cases "length output = 0")
  case True
  with assms show ?thesis
    by (simp add: fill_radial_polynomials_def moments_fill_radial_polynomials_def)
next
  case False
  with assms have "nat lmax \<le> length output" "0 < length output" by simp_all
  from fill_step_invariant [OF this] assms show ?thesis
    by (auto simp: fill_radial_polynomials_def moments_fill_radial_polynomials_def)
qed

theorem fill_radial_polynomials_powers_witness:
  "fill_radial_polynomials [2, 0, 0] 3 = Inr [2, 4, 8]"
proof -
  have "(3::int) \<le> int (length [2, 0, 0 :: real])" by simp
  from fill_radial_polynomials_powers [OF this]
  obtain out where o: "fill_radial_polynomials [2, 0, 0] 3 = Inr out" and l: "length out = 3"
    and e: "\<forall>l<3. out ! l = (if int l < 3 then (2::real) ^ (l + 1) else [2, 0, 0] ! l)"
    by auto
  from e have "out ! 0 = 2" "out ! 1 = 4" "out ! 2 = 8" by simp_all
  with list3 [OF l] o show ?thesis by simp
qed

section \<open>Read-only queries\<close>

lemma getter_frame:
  assumes "g w = (length (w_heap w),
     setflags_write (length (w_heap w)) False
       (write_data (length (w_heap w)) xs (snd (new_array (np_zeros sh) w))))"
  shows "fst (g w) = length (w_heap w) \<and> w_cell (snd (g w)) = w_cell w
     \<and> take (length (w_heap w)) (w_heap (snd (g w))) = w_heap w
     \<and> length (w_heap (snd (g w))) = Suc (length (w_heap w))
     \<and> \<not> writeable (w_heap (snd (g w)) ! fst (g w))"
  by (simp add: assms getter_body)

lemma array_getters_frame:
  assumes "g \<in> set [rvecs_get, gvecs_get, rlengths_get, glengths_get, rspacings_get, gspacings_get]"
  shows "fst (g w) = length (w_heap w) \<and> w_cell (snd (g w)) = w_cell w
     \<and> take (length (w_heap w)) (w_heap (snd (g w))) = w_heap w
     \<and> length (w_heap (snd (g w))) = Suc (length (w_heap w))
     \<and> \<not> writeable (w_heap (snd (g w)) ! fst (g w))"
proof -
  from assms consider "g = rvecs_get" | "g = gvecs_get" | "g = rlengths_get" | "g = glengths_get"
    | "g = rspacings_get" | "g = gspacings_get" by auto
  then show ?thesis
  proof cases
    case 1
    show ?thesis unfolding 1
      by (rule getter_frame) (simp add: rvecs_get_def new_array_def Let_def)
  next
    case 2
    show ?thesis unfolding 2
      by (rule getter_frame) (simp add: gvecs_get_def new_array_def Let_def)
  next
    case 3
    show ?thesis unfolding 3
      by (rule getter_frame) (simp add: rlengths_get_def new_array_def Let_def)
  next
    case 4
    show ?thesis unfolding 4
      by (rule getter_frame) (simp add: glengths_get_def new_array_def Let_def)
  next
    case 5
    show ?thesis unfolding 5
      by (rule getter_frame) (simp add: rspacings_get_def new_array_def Let_def)
  next
    case 6
    show ?thesis unfolding 6
      by (rule getter_frame) (simp add: gspacings_get_def new_array_def Let_def)
  qed
qed

lemma parameters_get_frame:
  "fst (fst (parameters_get w)) = length (w_heap w)
   \<and> snd (fst (parameters_get w)) = length (w_heap w) + 2
   \<and> w_cell (snd (parameters_get w)) = w_cell w
   \<and> take (length (w_heap w)) (w_heap (snd (parameters_get w))) = w_heap w
   \<and> length (w_heap (snd (parameters_get w))) = length (w_heap w) + 3
   \<and> \<not> writeable (w_heap (snd (parameters_get w)) ! fst (fst (parameters_get w)))
   \<and> writeable (w_heap (snd (parameters_get w)) ! snd (fst (parameters_get w)))"
proof -
  obtain w1 where 1: "rlengths_get w = (length (w_heap w), w1)"
    and c1: "w_cell w1 = w_cell w" and t1: "take (length (w_heap w)) (w_heap w1) = w_heap w"
    and l1: "length (w_heap w1) = Suc (length (w_heap w))"
    and f1: "\<not> writeable (w_heap w1 ! length (w_heap w))"
    using array_getters_frame [of rlengths_get w] by (cases "rlengths_get w") auto
  obtain w2 where 2: "rvecs_get w1 = (length (w_heap w1), w2)"
    and c2: "w_cell w2 = w_cell w1" and t2: "take (length (w_heap w1)) (w_heap w2) = w_heap w1"
    and l2: "length (w_heap w2) = Suc (length (w_heap w1))"
    using array_getters_frame [of rvecs_get w1] by (cases "rvecs_get w1") auto
  have t: "take (length (w_heap w)) (w_heap w2) = w_heap w"
  proof -
    have "take (length (w_heap w)) (take (length (w_heap w1)) (w_heap w2)) = w_heap w"
      by (simp only: t2 t1)
    then show ?thesis by (simp add: l1 min_def)
  qed
  have n: "w_heap w2 ! length (w_heap w) = w_heap w1 ! length (w_heap w)"
  proof -
    have "take (length (w_heap w1)) (w_heap w2) ! length (w_heap w) = w_heap w2 ! length (w_heap w)"
      by (simp add: l1)
    then show ?thesis by (simp add: t2)
  qed
  show ?thesis
    using c1 c2 t l1 l2 f1 n
    by (simp add: parameters_get_def 1 2 new_array_def Let_def nth_append)
qed

lemma run_query_cell: "w_cell (run_query q w) = w_cell w"
  using array_getters_frame [of _ w] parameters_get_frame [of w]
  by (cases q) simp_all

lemma run_queries_cell: "w_cell (run_queries qs w) = w_cell w"
  by (induction qs arbitrary: w) (simp_all add: run_query_cell)

lemma caller_write_cell: "w_cell (snd (caller_write p i v w)) = w_cell w"
  by (simp add: caller_write_def)

lemma caller_write_readonly:
  "\<not> writeable (w_heap w ! p) \<Longrightarrow>
     caller_write p i v w = (Inl (ValueError ''assignment destination is read-only''), w)"
  by (simp add: caller_write_def)

text \<open>
  C10, as amended. Each of the six array properties returns an array that was not in the
  store before, with its write flag cleared, leaves the arrays already there and the cell
  as they were, and numpy refuses a write into the returned array. The \<^verbatim>\<open>parameters\<close>
  property returns two new arrays and leaves the cell as it was: the lengths with the
  write flag cleared, the angles writable. No sequence of queries changes the cell, and no
  write of a caller into an array of the store changes it.
\<close>

theorem queries_leave_cell_unchanged:
  "(\<forall>g\<in>set [rvecs_get, gvecs_get, rlengths_get, glengths_get, rspacings_get, gspacings_get].
      fst (g w) = length (w_heap w)
      \<and> take (length (w_heap w)) (w_heap (snd (g w))) = w_heap w
      \<and> \<not> writeable (w_heap (snd (g w)) ! fst (g w))
      \<and> w_cell (snd (g w)) = w_cell w
      \<and> caller_write (fst (g w)) i v (snd (g w))
          = (Inl (ValueError ''assignment destination is read-only''), snd (g w)))
   \<and> (fst (fst (parameters_get w)) = length (w_heap w)
      \<and> snd (fst (parameters_get w)) = length (w_heap w) + 2
      \<and> take (length (w_heap w)) (w_heap (snd (parameters_get w))) = w_heap w
      \<and> \<not> writeable (w_heap (snd (parameters_get w)) ! fst (fst (parameters_get w)))
      \<and> writeable (w_heap (snd (parameters_get w)) ! snd (fst (parameters_get w)))
      \<and> w_cell (snd (parameters_get w)) = w_cell w)
   \<and> w_cell (run_queries qs w) = w_cell w
   \<and> w_cell (snd (caller_write p j x w)) = w_cell w"
proof -
  have A: "\<forall>g\<in>set [rvecs_get, gvecs_get, rlengths_get, glengths_get, rspacings_get, gspacings_get].
      fst (g w) = length (w_heap w)
      \<and> take (length (w_heap w)) (w_heap (snd (g w))) = w_heap w
      \<and> \<not> writeable (w_heap (snd (g w)) ! fst (g w))
      \<and> w_cell (snd (g w)) = w_cell w
      \<and> caller_write (fst (g w)) i v (snd (g w))
          = (Inl (ValueError ''assignment destination is read-only''), snd (g w))"
  proof
    fix g
    assume g: "g \<in> set [rvecs_get, gvecs_get, rlengths_get, glengths_get, rspacings_get, gspacings_get]"
    note f = array_getters_frame [OF g, of w]
    from f have "\<not> writeable (w_heap (snd (g w)) ! fst (g w))" by blast
    then have "caller_write (fst (g w)) i v (snd (g w))
          = (Inl (ValueError ''assignment destination is read-only''), snd (g w))"
      by (rule caller_write_readonly)
    with f show "fst (g w) = length (w_heap w)
      \<and> take (length (w_heap w)) (w_heap (snd (g w))) = w_heap w
      \<and> \<not> writeable (w_heap (snd (g w)) ! fst (g w))
      \<and> w_cell (snd (g w)) = w_cell w
      \<and> caller_write (fst (g w)) i v (snd (g w))
          = (Inl (ValueError ''assignment destination is read-only''), snd (g w))"
      by blast
  qed
  have B: "fst (fst (parameters_get w)) = length (w_heap w)
      \<and> snd (fst (parameters_get w)) = length (w_heap w) + 2
      \<and> take (length (w_heap w)) (w_heap (snd (parameters_get w))) = w_heap w
      \<and> \<not> writeable (w_heap (snd (parameters_get w)) ! fst (fst (parameters_get w)))
      \<and> writeable (w_heap (snd (parameters_get w)) ! snd (fst (parameters_get w)))
      \<and> w_cell (snd (parameters_get w)) = w_cell w"
    using parameters_get_frame [of w] by blast
  have C: "w_cell (run_queries qs w) = w_cell w" by (rule run_queries_cell)
  have D: "w_cell (snd (caller_write p j x w)) = w_cell w" by (rule caller_write_cell)
  from A B C D show ?thesis by blast
qed

theorem queries_leave_cell_unchanged_witness:
  "fst (gvecs_get \<lparr>w_cell = Cell_update Cell_cinit [1, 0, 0, 0, 1, 0, 0, 0, 1] [1, 0, 0, 0, 1, 0, 0, 0, 1] 3,
                   w_heap = []\<rparr>) = 0
   \<and> w_cell (snd (gvecs_get \<lparr>w_cell = Cell_update Cell_cinit [1, 0, 0, 0, 1, 0, 0, 0, 1] [1, 0, 0, 0, 1, 0, 0, 0, 1] 3,
                   w_heap = []\<rparr>))
      = Cell_update Cell_cinit [1, 0, 0, 0, 1, 0, 0, 0, 1] [1, 0, 0, 0, 1, 0, 0, 0, 1] 3"
  using queries_leave_cell_unchanged
    [of "\<lparr>w_cell = Cell_update Cell_cinit [1, 0, 0, 0, 1, 0, 0, 0, 1] [1, 0, 0, 0, 1, 0, 0, 0, 1] 3,
          w_heap = []\<rparr>"]
  by simp

text \<open>
  As first stated, C10 fails for \<^verbatim>\<open>parameters\<close>: on the unit cubic cell the second array
  returned, the angles, is writable.
\<close>

theorem parameters_angles_writable_counterexample:
  "parameters_get \<lparr>w_cell = Cell_update Cell_cinit [1, 0, 0, 0, 1, 0, 0, 0, 1] [1, 0, 0, 0, 1, 0, 0, 0, 1] 3,
                   w_heap = []\<rparr>
     = ((0, 2),
        \<lparr>w_cell = Cell_update Cell_cinit [1, 0, 0, 0, 1, 0, 0, 0, 1] [1, 0, 0, 0, 1, 0, 0, 0, 1] 3,
         w_heap = [\<lparr>shape = [3], data = [1, 1, 1], writeable = False\<rparr>,
                   \<lparr>shape = [3, 3], data = [1, 0, 0, 0, 1, 0, 0, 0, 1], writeable = False\<rparr>,
                   \<lparr>shape = [3], data = [pi / 2, pi / 2, pi / 2], writeable = True\<rparr>]\<rparr>)"
  by (simp add: parameters_get_def rlengths_get_def rvecs_get_def new_array_def write_data_def
      setflags_write_def np_zeros_def get_nvec_def copy_rlengths_def copy_rvecs_def Cell_update_def
      vlen_def vdot_def row3_def rows_of_def dot_def transpose_m_def ncols_def div_bc_def
      div_rows_def clip_def Let_def upt3 numeral_eq_Suc)

section \<open>The reciprocal matrix is the dual basis\<close>

lemma sum_list_map2_nth:
  fixes r c :: "real list"
  assumes "length r = length c"
  shows "sum_list (map2 (*) r c) = (\<Sum>k<length c. r ! k * c ! k)"
proof -
  have "sum_list (map2 (*) r c) = (\<Sum>k = 0..<length (map2 (*) r c). map2 (*) r c ! k)"
    by (rule sum_list_sum_nth)
  also have "\<dots> = (\<Sum>k = 0..<length c. r ! k * c ! k)"
    using assms by (intro sum.cong) simp_all
  finally show ?thesis by (simp add: lessThan_atLeast0)
qed

lemma dot_nth:
  assumes "i < length A" and "j < ncols B" and "length (A ! i) = length B"
  shows "dot A B ! i ! j = (\<Sum>k<length B. A ! i ! k * B ! k ! j)"
proof -
  have "dot A B ! i ! j = sum_list (map2 (*) (A ! i) (map (\<lambda>b. b ! j) B))"
    using assms by (simp add: dot_def)
  also have "\<dots> = (\<Sum>k<length (map (\<lambda>b. b ! j) B). A ! i ! k * map (\<lambda>b. b ! j) B ! k)"
    using assms by (intro sum_list_map2_nth) simp
  also have "\<dots> = (\<Sum>k<length B. A ! i ! k * B ! k ! j)"
    by (intro sum.cong) simp_all
  finally show ?thesis .
qed

lemma length_dot: "length (dot A B) = length A"
  by (simp add: dot_def)

lemma length_dot_row: "i < length A \<Longrightarrow> length (dot A B ! i) = ncols B"
  by (simp add: dot_def)

lemma length_transpose_m: "length (transpose_m A) = ncols A"
  by (simp add: transpose_m_def)

lemma transpose_m_nth:
  "j < ncols A \<Longrightarrow> i < length A \<Longrightarrow> transpose_m A ! j ! i = A ! i ! j"
  by (simp add: transpose_m_def)

lemma length_transpose_m_row: "j < ncols A \<Longrightarrow> length (transpose_m A ! j) = length A"
  by (simp add: transpose_m_def)

lemma ncols_length: "A \<noteq> [] \<Longrightarrow> \<forall>r\<in>set A. length r = m \<Longrightarrow> ncols A = m"
  by (cases A) (simp_all add: ncols_def)

lemma ncols_transpose_m: "ncols A \<noteq> 0 \<Longrightarrow> ncols (transpose_m A) = length A"
  by (simp add: transpose_m_def ncols_def upt_conv_Cons split: list.splits)

lemma identity_nth: "i < n \<Longrightarrow> j < n \<Longrightarrow> identity n ! i ! j = (if i = j then 1 else 0)"
  by (simp add: identity_def)

lemma length_identity: "length (identity n) = n"
  by (simp add: identity_def)

lemma length_identity_row: "i < n \<Longrightarrow> length (identity n ! i) = n"
  by (simp add: identity_def)

lemma orthogonal_entries:
  assumes "dot V (transpose_m V) = identity m" and "length V = m" and "\<forall>r\<in>set V. length r = m"
    and "j < m" and "l < m"
  shows "(\<Sum>k<m. V ! j ! k * V ! l ! k) = (if j = l then 1 else 0)"
proof -
  from assms have ne: "V \<noteq> []" by auto
  have nc: "ncols V = m" using ne assms(3) by (rule ncols_length)
  have "dot V (transpose_m V) ! j ! l = (\<Sum>k<length (transpose_m V). V ! j ! k * transpose_m V ! k ! l)"
    using assms nc by (intro dot_nth) (simp_all add: ncols_transpose_m length_transpose_m)
  also have "\<dots> = (\<Sum>k<m. V ! j ! k * V ! l ! k)"
    using assms nc by (intro sum.cong) (simp_all add: length_transpose_m transpose_m_nth)
  finally show ?thesis using assms by (simp add: identity_nth)
qed

lemma gram_step:
  fixes a b :: "nat \<Rightarrow> real" and V :: "nat \<Rightarrow> nat \<Rightarrow> real"
  assumes "\<And>j m. j < N \<Longrightarrow> m < N \<Longrightarrow> (\<Sum>k<N. V j k * V m k) = (if j = m then 1 else 0)"
  shows "(\<Sum>k<N. (\<Sum>j<N. a j * V j k) * (\<Sum>m<N. b m * V m k)) = (\<Sum>j<N. a j * b j)"
proof -
  have "(\<Sum>k<N. (\<Sum>j<N. a j * V j k) * (\<Sum>m<N. b m * V m k))
      = (\<Sum>k<N. \<Sum>j<N. \<Sum>m<N. (a j * b m) * (V j k * V m k))"
    by (simp add: sum_product algebra_simps)
  also have "\<dots> = (\<Sum>j<N. \<Sum>k<N. \<Sum>m<N. (a j * b m) * (V j k * V m k))"
    by (rule sum.swap)
  also have "\<dots> = (\<Sum>j<N. \<Sum>m<N. \<Sum>k<N. (a j * b m) * (V j k * V m k))"
    by (intro sum.cong refl sum.swap)
  also have "\<dots> = (\<Sum>j<N. \<Sum>m<N. (a j * b m) * (\<Sum>k<N. V j k * V m k))"
    by (simp add: sum_distrib_left)
  also have "\<dots> = (\<Sum>j<N. \<Sum>m<N. (a j * b m) * (if j = m then 1 else 0))"
    using assms by (intro sum.cong refl) simp
  also have "\<dots> = (\<Sum>j<N. \<Sum>m<N. (if j = m then a j * b j else 0))"
    by (intro sum.cong refl) simp
  also have "\<dots> = (\<Sum>j<N. a j * b j)"
    by (intro sum.cong refl) (simp add: sum.delta)
  finally show ?thesis .
qed

lemma block_orthogonal:
  fixes u :: "nat \<Rightarrow> nat \<Rightarrow> real"
  assumes nN: "n \<le> N"
    and orth: "\<And>i l. i < n \<Longrightarrow> l < n \<Longrightarrow> (\<Sum>j<n. u i j * u l j) = (if i = l then 1 else 0)"
    and i: "i < N" and l: "l < N"
  shows "(\<Sum>j<N. (if i < n \<and> j < n then u i j else if i = j then 1 else 0)
               * (if l < n \<and> j < n then u l j else if l = j then 1 else 0))
         = (if i = l then 1 else 0)"
    (is "(\<Sum>j<N. ?f j) = _")
proof -
  have split: "{..<N} = {..<n} \<union> {n..<N}" using nN by auto
  have "(\<Sum>j<N. ?f j) = (\<Sum>j<n. ?f j) + (\<Sum>j\<in>{n..<N}. ?f j)"
    unfolding split by (rule sum.union_disjoint) auto
  moreover have "(\<Sum>j<n. ?f j) = (if i < n \<and> l < n \<and> i = l then 1 else 0)"
  proof (cases "i < n \<and> l < n")
    case True
    then have "(\<Sum>j<n. ?f j) = (\<Sum>j<n. u i j * u l j)"
      by (intro sum.cong) simp_all
    with True orth [of i l] show ?thesis by simp
  next
    case False
    then have "(\<Sum>j<n. ?f j) = (\<Sum>j<n. 0)"
      by (intro sum.cong) auto
    with False show ?thesis by auto
  qed
  moreover have "(\<Sum>j\<in>{n..<N}. ?f j) = (if n \<le> i \<and> i = l then 1 else 0)"
  proof -
    have "(\<Sum>j\<in>{n..<N}. ?f j) = (\<Sum>j\<in>{n..<N}. if j = i then (if l = i then 1 else 0) else 0)"
      by (intro sum.cong) auto
    also have "\<dots> = (if i \<in> {n..<N} then (if l = i then 1 else 0) else 0)"
      by (simp add: sum.delta)
    finally show ?thesis using i by auto
  qed
  ultimately show ?thesis by auto
qed

lemma block_sum_prefix:
  fixes u :: "nat \<Rightarrow> nat \<Rightarrow> real" and g :: "nat \<Rightarrow> real"
  assumes nN: "n \<le> N" and i: "i < n"
  shows "(\<Sum>j<N. (if i < n \<and> j < n then u i j else if i = j then 1 else 0) * g j)
         = (\<Sum>j<n. u i j * g j)"
    (is "(\<Sum>j<N. ?f j) = _")
proof -
  have split: "{..<N} = {..<n} \<union> {n..<N}" using nN by auto
  have "(\<Sum>j<N. ?f j) = (\<Sum>j<n. ?f j) + (\<Sum>j\<in>{n..<N}. ?f j)"
    unfolding split by (rule sum.union_disjoint) auto
  moreover have "(\<Sum>j<n. ?f j) = (\<Sum>j<n. u i j * g j)"
    using i by (intro sum.cong) simp_all
  moreover have "(\<Sum>j\<in>{n..<N}. ?f j) = (\<Sum>j\<in>{n..<N}. 0)"
    using i by (intro sum.cong) auto
  ultimately show ?thesis by simp
qed

lemma set_block_nth:
  assumes "i < 3" and "j < 3" and "n \<le> 3" and "length Up = n" and "\<forall>r\<in>set Up. length r = n"
  shows "set_block n Up (identity 3) ! i ! j
         = (if i < n \<and> j < n then Up ! i ! j else if i = j then 1 else 0)"
  using assms
  by (auto simp: set_block_def set_prefix_def length_identity nth_append identity_nth
      length_identity_row)

lemma length_set_block: "length (set_block n Up (identity 3)) = 3"
  by (simp add: set_block_def length_identity)

lemma length_set_block_row:
  assumes "i < 3" and "n \<le> 3" and "length Up = n" and "\<forall>r\<in>set Up. length r = n"
  shows "length (set_block n Up (identity 3) ! i) = 3"
  using assms by (auto simp: set_block_def set_prefix_def length_identity length_identity_row)

lemma set_prefix_ones_nth:
  assumes "j < 3" and "n \<le> 3" and "length Sp = n"
  shows "set_prefix n Sp (ones 3) ! j = (if j < n then Sp ! j else 1)"
  using assms by (auto simp: set_prefix_def ones_def nth_append)

lemma length_set_prefix_ones: "n \<le> 3 \<Longrightarrow> length Sp = n \<Longrightarrow> length (set_prefix n Sp (ones 3)) = 3"
  by (simp add: set_prefix_def ones_def)

lemma mat_eqI:
  assumes "length A = length B" and "\<And>i. i < length A \<Longrightarrow> length (A ! i) = m"
    and "\<And>i. i < length A \<Longrightarrow> length (B ! i) = m"
    and "\<And>i j. i < length A \<Longrightarrow> j < m \<Longrightarrow> A ! i ! j = B ! i ! j"
  shows "A = (B :: real list list)"
proof (rule nth_equalityI)
  show "length A = length B" by fact
next
  fix i assume i: "i < length A"
  show "A ! i = B ! i"
  proof (rule nth_equalityI)
    show "length (A ! i) = length (B ! i)"
      using assms(2) [OF i] assms(3) [OF i] by simp
  next
    fix j assume "j < length (A ! i)"
    then have "j < m" using assms(2) [OF i] by simp
    then show "A ! i ! j = B ! i ! j" using i by (rule assms(4) [rotated])
  qed
qed

lemma bc_nth:
  assumes "i < length U" and "j < length (U ! i)" and "j < length S"
  shows "mul_bc U S ! i ! j = U ! i ! j * S ! j" and "div_bc U S ! i ! j = U ! i ! j / S ! j"
  using assms by (simp_all add: mul_bc_def div_bc_def)

lemma length_bc: "length (mul_bc U S) = length U" "length (div_bc U S) = length U"
  by (simp_all add: mul_bc_def div_bc_def)

lemma length_bc_row:
  assumes "i < length U"
  shows "length (mul_bc U S ! i) = min (length (U ! i)) (length S)"
    and "length (div_bc U S ! i) = min (length (U ! i)) (length S)"
  using assms by (simp_all add: mul_bc_def div_bc_def)

lemma svd_completion:
  assumes n: "n \<le> 3" and lu: "length Up = n" and ru: "\<forall>r\<in>set Up. length r = n"
    and ls: "length Sp = n" and lv: "length Vt = 3" and rv: "\<forall>r\<in>set Vt. length r = 3"
    and ou: "dot Up (transpose_m Up) = identity n"
    and ov: "dot Vt (transpose_m Vt) = identity 3"
    and nz: "0 \<notin> set Sp"
  defines "U \<equiv> set_block n Up (identity 3)" and "S \<equiv> set_prefix n Sp (ones 3)"
  shows "dot (dot (div_bc U S) Vt) (transpose_m (dot (mul_bc U S) Vt)) = identity 3"
    and "take n (dot (mul_bc U S) Vt) = dot (mul_bc Up Sp) (take n Vt)"
    and "length (dot (mul_bc U S) Vt) = 3"
    and "\<forall>r\<in>set (dot (mul_bc U S) Vt). length r = 3"
    and "length (dot (div_bc U S) Vt) = 3"
    and "\<forall>r\<in>set (dot (div_bc U S) Vt). length r = 3"
proof -
  define uf where "uf i j = (if i < n \<and> j < n then Up ! i ! j else if i = j then 1 else 0)" for i j
  define sf where "sf j = (if j < n then Sp ! j else 1)" for j
  define M where "M = dot (mul_bc U S) Vt"
  define G where "G = dot (div_bc U S) Vt"
  have Vne: "Vt \<noteq> []" using lv by auto
  have ncV: "ncols Vt = 3" using Vne rv by (rule ncols_length)
  have lU: "length U = 3" by (simp add: U_def length_set_block)
  have rU: "length (U ! i) = 3" if "i < 3" for i
    using that n lu ru by (simp add: U_def length_set_block_row)
  have lS: "length S = 3" using n ls by (simp add: S_def length_set_prefix_ones)
  have Uij: "U ! i ! j = uf i j" if "i < 3" "j < 3" for i j
    using that n lu ru by (simp add: U_def uf_def set_block_nth)
  have Sj: "S ! j = sf j" if "j < 3" for j
    using that n ls by (simp add: S_def sf_def set_prefix_ones_nth)
  have sf_nz: "sf j \<noteq> 0" for j
    using nz ls by (auto simp: sf_def in_set_conv_nth)
  have lM: "length M = 3" and lG: "length G = 3"
    by (simp_all add: M_def G_def length_dot length_bc lU)
  have rM: "length (M ! i) = 3" if "i < 3" for i
    using that by (simp add: M_def length_dot_row length_bc lU ncV)
  have rG: "length (G ! i) = 3" if "i < 3" for i
    using that by (simp add: G_def length_dot_row length_bc lU ncV)
  have Mik: "M ! i ! k = (\<Sum>j<3. (uf i j * sf j) * Vt ! j ! k)" if "i < 3" "k < 3" for i k
  proof -
    have "M ! i ! k = (\<Sum>j<length Vt. mul_bc U S ! i ! j * Vt ! j ! k)"
      unfolding M_def using that by (intro dot_nth) (simp_all add: length_bc length_bc_row lU rU lS ncV lv)
    also have "\<dots> = (\<Sum>j<3. (uf i j * sf j) * Vt ! j ! k)"
      using that by (intro sum.cong) (simp_all add: lv bc_nth lU rU lS Uij Sj)
    finally show ?thesis .
  qed
  have Gik: "G ! i ! k = (\<Sum>j<3. (uf i j / sf j) * Vt ! j ! k)" if "i < 3" "k < 3" for i k
  proof -
    have "G ! i ! k = (\<Sum>j<length Vt. div_bc U S ! i ! j * Vt ! j ! k)"
      unfolding G_def using that by (intro dot_nth) (simp_all add: length_bc length_bc_row lU rU lS ncV lv)
    also have "\<dots> = (\<Sum>j<3. (uf i j / sf j) * Vt ! j ! k)"
      using that by (intro sum.cong) (simp_all add: lv bc_nth lU rU lS Uij Sj)
    finally show ?thesis .
  qed
  have Mne: "M \<noteq> []" using lM by auto
  have rM': "\<forall>r\<in>set M. length r = 3"
    using rM lM by (auto simp: in_set_conv_nth)
  have rG': "\<forall>r\<in>set G. length r = 3"
    using rG lG by (auto simp: in_set_conv_nth)
  have ncM: "ncols M = 3" using Mne rM' by (rule ncols_length)
  have Vorth: "(\<Sum>k<3. Vt ! j ! k * Vt ! m ! k) = (if j = m then 1 else 0)" if "j < 3" "m < 3" for j m
    using ov lv rv that by (rule orthogonal_entries)
  have Uorth: "(\<Sum>j<n. Up ! i ! j * Up ! l ! j) = (if i = l then 1 else 0)" if "i < n" "l < n" for i l
    using ou lu ru that by (rule orthogonal_entries)
  have UU: "(\<Sum>j<3. uf i j * uf l j) = (if i = l then 1 else 0)" if "i < 3" "l < 3" for i l
    unfolding uf_def using n Uorth that by (rule block_orthogonal)
  have GM: "dot G (transpose_m M) ! i ! l = (if i = l then 1 else 0)" if "i < 3" "l < 3" for i l
  proof -
    have "dot G (transpose_m M) ! i ! l = (\<Sum>k<length (transpose_m M). G ! i ! k * transpose_m M ! k ! l)"
      using that by (intro dot_nth) (simp_all add: lG rG length_transpose_m ncM ncols_transpose_m lM)
    also have "\<dots> = (\<Sum>k<3. G ! i ! k * M ! l ! k)"
      using that by (intro sum.cong) (simp_all add: length_transpose_m ncM transpose_m_nth lM)
    also have "\<dots> = (\<Sum>k<3. (\<Sum>j<3. (uf i j / sf j) * Vt ! j ! k) * (\<Sum>m<3. (uf l m * sf m) * Vt ! m ! k))"
      using that by (intro sum.cong) (simp_all add: Gik Mik)
    also have "\<dots> = (\<Sum>j<3. (uf i j / sf j) * (uf l j * sf j))"
      by (rule gram_step) (simp add: Vorth)
    also have "\<dots> = (\<Sum>j<3. uf i j * uf l j)"
      by (intro sum.cong) (simp_all add: sf_nz)
    finally show ?thesis using that by (simp add: UU)
  qed
  have "dot G (transpose_m M) = identity 3"
  proof (rule mat_eqI [where m = 3])
    show "length (dot G (transpose_m M)) = length (identity 3)"
      by (simp add: length_dot lG length_identity)
    show "length (dot G (transpose_m M) ! i) = 3" if "i < length (dot G (transpose_m M))" for i
      using that by (simp add: length_dot length_dot_row ncols_transpose_m ncM lM)
    show "length (identity 3 ! i) = 3" if "i < length (dot G (transpose_m M))" for i
      using that by (simp add: length_dot lG length_identity_row)
    show "dot G (transpose_m M) ! i ! j = identity 3 ! i ! j"
      if "i < length (dot G (transpose_m M))" "j < 3" for i j
      using that by (simp add: length_dot lG GM identity_nth)
  qed
  then show "dot (dot (div_bc U S) Vt) (transpose_m (dot (mul_bc U S) Vt)) = identity 3"
    by (simp add: G_def M_def)
  have "take n M = dot (mul_bc Up Sp) (take n Vt)"
  proof (rule mat_eqI [where m = 3])
    show "length (take n M) = length (dot (mul_bc Up Sp) (take n Vt))"
      using n by (simp add: length_dot length_bc lM lu)
    show "length (take n M ! i) = 3" if "i < length (take n M)" for i
      using that by (simp add: rM lM)
    have "ncols (take n Vt) = 3" if "0 < n"
      using that lv rv by (intro ncols_length) (auto dest: in_set_takeD)
    then show "length (dot (mul_bc Up Sp) (take n Vt) ! i) = 3" if "i < length (take n M)" for i
      using that by (simp add: length_dot_row length_bc lu lM)
    show "take n M ! i ! k = dot (mul_bc Up Sp) (take n Vt) ! i ! k"
      if "i < length (take n M)" "k < 3" for i k
    proof -
      from that n have i: "i < n" "i < 3" by (simp_all add: lM)
      have nc: "ncols (take n Vt) = 3"
        using i lv rv by (intro ncols_length) (auto dest: in_set_takeD)
      have rUp: "length (Up ! i) = n" using ru lu i by simp
      have "dot (mul_bc Up Sp) (take n Vt) ! i ! k
          = (\<Sum>j<length (take n Vt). mul_bc Up Sp ! i ! j * take n Vt ! j ! k)"
        using that i n by (intro dot_nth) (simp_all add: length_bc length_bc_row lu rUp ls nc lv)
      also have "\<dots> = (\<Sum>j<n. Up ! i ! j * (Sp ! j * Vt ! j ! k))"
        using i n by (intro sum.cong) (simp_all add: lv bc_nth lu rUp ls)
      also have "\<dots> = (\<Sum>j<3. (if i < n \<and> j < n then Up ! i ! j else if i = j then 1 else 0)
                             * (sf j * Vt ! j ! k))"
      proof -
        have "(\<Sum>j<3. (if i < n \<and> j < n then Up ! i ! j else if i = j then 1 else 0)
                             * (sf j * Vt ! j ! k)) = (\<Sum>j<n. Up ! i ! j * (sf j * Vt ! j ! k))"
          using n i(1) by (rule block_sum_prefix)
        also have "\<dots> = (\<Sum>j<n. Up ! i ! j * (Sp ! j * Vt ! j ! k))"
          by (intro sum.cong) (simp_all add: sf_def)
        finally show ?thesis by simp
      qed
      also have "\<dots> = M ! i ! k"
        using i that by (simp add: Mik uf_def mult.assoc)
      finally show ?thesis using i by simp
    qed
  qed
  then show "take n (dot (mul_bc U S) Vt) = dot (mul_bc Up Sp) (take n Vt)"
    by (simp add: M_def)
  show "length (dot (mul_bc U S) Vt) = 3" using lM by (simp add: M_def)
  show "\<forall>r\<in>set (dot (mul_bc U S) Vt). length r = 3" using rM' by (simp add: M_def)
  show "length (dot (div_bc U S) Vt) = 3" using lG by (simp add: G_def)
  show "\<forall>r\<in>set (dot (div_bc U S) Vt). length r = 3" using rG' by (simp add: G_def)
qed

lemma mat3_of_concat:
  assumes "length M = 3" and "\<forall>r\<in>set M. length r = 3"
  shows "mat3_of (take 9 (concat M)) = M"
proof -
  from assms(1) obtain r0 r1 r2 where M: "M = [r0, r1, r2]"
    by (auto simp: length_Suc_conv numeral_eq_Suc)
  with assms(2) have "length r0 = 3" "length r1 = 3" "length r2 = 3" by simp_all
  then show ?thesis
    by (simp add: M mat3_of_def row3_def upt3)
qed

lemma identity3_dual: "dot (identity 3) (transpose_m (identity 3)) = identity 3"
  by (simp add: dot_def transpose_m_def identity_def ncols_def upt3 numeral_eq_Suc)

lemma length_identity_rows: "\<forall>r\<in>set (identity n). length r = n"
  by (simp add: identity_def)

text \<open>
  C2. Whenever the constructor or \<^verbatim>\<open>update_rvecs\<close> returns, for no vectors or for up to
  three vectors of full rank (no singular value is zero) decomposed as numpy documents,
  the stored reciprocal matrix times the transpose of the stored, completed real-space
  matrix is the \<open>3\<times>3\<close> identity, in all three rows. The statement is the one of exact
  arithmetic; the doubles of the code satisfy it up to rounding.
\<close>

theorem gvecs_dual_basis:
  assumes "update_rvecs svd self x = (Inr (), c) \<or> Cell_init svd x = Inr c"
    and "\<forall>a. x = Some a \<longrightarrow>
           (\<exists>n\<le>3. shape a = [n, 3] \<and> length (data a) = 3 * n)
           \<and> (\<forall>F. svd (rows_of a) = Some F \<longrightarrow>
                 svd_contract (rows_of a) F \<and> 0 \<notin> set (fst (snd F)))"
  shows "dot (mat3_of (cell_gvecs c)) (transpose_m (mat3_of (cell_rvecs c))) = identity 3"
proof -
  from assms(1) obtain s where upd: "update_rvecs svd s x = (Inr (), c)"
    by (auto simp: Cell_init_def split: prod.splits sum.splits)
  show ?thesis
  proof (cases "x = None \<or> size_nd (the x) = 0")
    case True
    with upd have "c = Cell_update s (concat (identity 3)) (concat (identity 3)) 0"
      by (auto simp: update_rvecs_def Let_def split: if_splits)
    then have "cell_rvecs c = take 9 (concat (identity 3))"
      and "cell_gvecs c = take 9 (concat (identity 3))"
      by (simp_all add: Cell_update_def)
    then show ?thesis
      by (simp add: mat3_of_concat length_identity length_identity_rows identity3_dual)
  next
    case False
    then obtain a where x: "x = Some a" and sz: "size_nd a \<noteq> 0" by auto
    from assms(2) x obtain n where n: "n \<le> 3" and sh: "shape a = [n, 3]"
      and ld: "length (data a) = 3 * n" by blast
    from sz sh have n0: "n \<noteq> 0" by (simp add: size_nd_def)
    from upd x sh n n0 obtain Up Sp Vt where svd: "svd (rows_of a) = Some (Up, Sp, Vt)"
      by (auto simp: update_rvecs_def ndim_def size_nd_def Let_def split: option.splits)
    define U where "U = set_block n Up (identity 3)"
    define S where "S = set_prefix n Sp (ones 3)"
    define M where "M = dot (mul_bc U S) Vt"
    define G where "G = dot (div_bc U S) Vt"
    from upd x sh n n0 svd
    have c: "c = Cell_update s (concat (set_prefix n (rows_of a) M)) (concat G) n"
      by (simp add: update_rvecs_def ndim_def size_nd_def Let_def M_def G_def U_def S_def)
    have lr: "length (rows_of a) = n" using sh by (rule length_rows_of)
    from assms(2) x svd have "svd_contract (rows_of a) (Up, Sp, Vt)" and nz: "0 \<notin> set Sp"
      by auto
    then have lu: "length Up = n" and ru: "\<forall>r\<in>set Up. length r = n" and ls: "length Sp = n"
      and lv: "length Vt = 3" and rv: "\<forall>r\<in>set Vt. length r = 3"
      and ou: "dot Up (transpose_m Up) = identity n"
      and ov: "dot Vt (transpose_m Vt) = identity 3"
      and rec: "dot (mul_bc Up Sp) (take n Vt) = rows_of a"
      by (simp_all add: svd_contract_def lr)
    note sc = svd_completion [OF n lu ru ls lv rv ou ov nz, folded U_def S_def, folded M_def G_def]
    have "set_prefix n (rows_of a) M = take n M @ drop n M"
      using sc(2) rec lr by (simp add: set_prefix_def)
    then have "set_prefix n (rows_of a) M = M" by simp
    with c have "cell_rvecs c = take 9 (concat M)" and "cell_gvecs c = take 9 (concat G)"
      by (simp_all add: Cell_update_def)
    then show ?thesis
      using sc by (simp add: mat3_of_concat)
  qed
qed

theorem gvecs_dual_basis_witness:
  "update_rvecs (\<lambda>_. Some ([[0, 1], [1, 0]], [3, 2], [[0, 1, 0], [1, 0, 0], [0, 0, 1]])) Cell_cinit
       (Some \<lparr>shape = [2, 3], data = [2, 0, 0, 0, 3, 0], writeable = True\<rparr>)
     = (Inr (), Cell_update Cell_cinit [2, 0, 0, 0, 3, 0, 0, 0, 1] [1 / 2, 0, 0, 0, 1 / 3, 0, 0, 0, 1] 2)
   \<and> dot (mat3_of [1 / 2, 0, 0, 0, 1 / 3, 0, 0, 0, 1]) (transpose_m (mat3_of [2, 0, 0, 0, 3, 0, 0, 0, 1]))
       = identity 3"
proof -
  let ?F = "([[0, 1], [1, 0]], [3, 2], [[0, 1, 0], [1, 0, 0], [0, 0, 1 :: real]])"
  let ?svd = "\<lambda>_ :: real list list. Some ?F"
  let ?a = "\<lparr>shape = [2, 3], data = [2, 0, 0, 0, 3, 0], writeable = True\<rparr>"
  let ?c = "Cell_update Cell_cinit [2, 0, 0, 0, 3, 0, 0, 0, 1] [1 / 2, 0, 0, 0, 1 / 3, 0, 0, 0, 1] 2"
  have u: "update_rvecs ?svd Cell_cinit (Some ?a) = (Inr (), ?c)"
    by (simp add: eval_defs upt3 numeral_eq_Suc)
  have r: "rows_of ?a = [[2, 0, 0], [0, 3, 0]]"
    by (simp add: rows_of_def numeral_eq_Suc)
  have k: "svd_contract (rows_of ?a) ?F"
    unfolding r
    by (simp add: svd_contract_def dot_def transpose_m_def mul_bc_def identity_def ncols_def
        upt3 numeral_eq_Suc)
  have v: "\<forall>a. Some ?a = Some a \<longrightarrow>
           (\<exists>n\<le>3. shape a = [n, 3] \<and> length (data a) = 3 * n)
           \<and> (\<forall>F. ?svd (rows_of a) = Some F \<longrightarrow>
                 svd_contract (rows_of a) F \<and> 0 \<notin> set (fst (snd F)))"
    using k by auto
  from gvecs_dual_basis [OF disjI1 [OF u] v] u show ?thesis
    by (simp add: Cell_update_def)
qed

end
